theory Spec2Isabelle
  imports Complex_Main "HOL-Library.Signed_Division" "HOL-Library.Word"
begin

section \<open>hostd-pin: the rate averager and the host update loop\<close>

text \<open>
  The development embeds package \<open>rate\<close> (the \<open>Averager\<close>) and the functions of
  \<open>cmd/hpind\<close> that decide and perform an update round (\<open>isOverThreshold\<close>,
  \<open>convertToCurrency\<close>, \<open>updateHosts\<close> and the body of the ticker loop of \<open>main\<close>).
  Network calls are inputs of the model: the answer of the exchange-rate service is an
  argument of \<open>getExchangeRate\<close>, the answer of a host to \<open>UpdateSettings\<close> is a
  function of the host. Logging has no effect on the state and is left out; the mutex of
  the averager is not modelled (every operation is one atomic step).
\<close>

subsection \<open>Decimals (package shopspring/decimal)\<close>

text \<open>
  A \<open>decimal.Decimal\<close> is an arbitrary-precision number \<open>value * 10 ^ exp\<close>. The model
  keeps the rational number it denotes. \<open>Add\<close>, \<open>Sub\<close>, \<open>Mul\<close>, \<open>Abs\<close> and
  \<open>GreaterThan\<close> are exact on that number and are written \<open>+\<close>, \<open>-\<close>, \<open>*\<close>,
  \<open>abs\<close> and \<open>>\<close>. \<open>Div\<close> is not exact: it is \<open>DivRound\<close> at the package's
  \<open>DivisionPrecision\<close> of 16 decimal places, rounding half away from zero, and it
  panics on a zero divisor. \<open>Round(0)\<close> rounds half away from zero to an integer.
  The zero value of the type denotes 0.
\<close>

type_synonym decimal = rat

datatype panic =
    DecimalDivisionByZero
  | IntegerDivideByZero
  | ParseCurrencyFailed
  | NonPositiveTickerInterval

definition round_half_away :: "rat \<Rightarrow> int" where
  "round_half_away x = (if 0 \<le> x then \<lfloor>x + 1 / 2\<rfloor> else - \<lfloor>- x + 1 / 2\<rfloor>)"

definition DivisionPrecision :: nat where
  "DivisionPrecision = 16"

definition DivRound :: "decimal \<Rightarrow> decimal \<Rightarrow> nat \<Rightarrow> panic + decimal" where
  "DivRound d d2 precision =
     (if d2 = 0 then Inl DecimalDivisionByZero
      else Inr (of_int (round_half_away (d / d2 * 10 ^ precision)) / 10 ^ precision))"

definition Div :: "decimal \<Rightarrow> decimal \<Rightarrow> panic + decimal" where
  "Div d d2 = DivRound d d2 DivisionPrecision"

definition Round0 :: "decimal \<Rightarrow> int" where
  "Round0 d = round_half_away d"

subsection \<open>Package rate: the averager\<close>

text \<open>
  \<open>time.Duration\<close> is a count of nanoseconds in an \<open>int64\<close>. The only arithmetic on
  it is the quotient \<open>48 * time.Hour / ra.frequency\<close>, whose dividend is a constant, so
  it cannot overflow and durations are modelled as \<open>int\<close>. Go's \<open>/\<close> truncates towards
  zero (\<open>sdiv\<close>) and panics on a zero divisor.
\<close>

type_synonym duration = int

definition Minute :: duration where
  "Minute = 60 * 1000000000"

definition Hour :: duration where
  "Hour = 60 * Minute"

record Averager =
  currency :: string
  frequency :: duration
  rates :: "decimal list"
  average :: decimal

text \<open>
  The answer of \<open>sc.GetExchangeRate()\<close>: an error, or the table of rates by currency.
  The table holds \<open>float64\<close> values in the source; the model holds the decimals that
  \<open>decimal.NewFromFloat\<close> makes of them (it is exact on every finite value; a table
  of the model has no NaN and no infinity).
\<close>

datatype api_response =
    ApiError string
  | ApiRates "string \<rightharpoonup> decimal"

datatype error =
    Transport string
  | CurrencyNotFound
  | FailedToGetExchangeRate error
  | FailedToUpdateHost string string

definition getExchangeRate :: "api_response \<Rightarrow> string \<Rightarrow> error + decimal" where
  "getExchangeRate resp cur =
     (case resp of
        ApiError e \<Rightarrow> Inl (Transport e)
      | ApiRates rs \<Rightarrow>
          (case rs cur of
             None \<Rightarrow> Inl CurrencyNotFound
           | Some rate \<Rightarrow> Inr rate))"

text \<open>
  What a call of \<open>Update\<close> does: it returns (a rate or an error), or it panics. The
  averager is returned in both cases, as it is when control leaves the function.
\<close>

datatype update_outcome =
    Returned "error + decimal"
  | Panicked panic

definition sum_rates :: "decimal list \<Rightarrow> decimal" where
  "sum_rates rs = foldl (\<lambda>sum r. sum + r) 0 rs"

definition Update :: "Averager \<Rightarrow> api_response \<Rightarrow> Averager \<times> update_outcome" where
  "Update ra resp =
     (case getExchangeRate resp (currency ra) of
        Inl err \<Rightarrow> (ra, Returned (Inl (FailedToGetExchangeRate err)))
      | Inr rate \<Rightarrow>
          if frequency ra = 0 then (ra, Panicked IntegerDivideByZero)
          else
            let maxRates = (48 * Hour) sdiv frequency ra;
                appended = rates ra @ [rate];
                kept = (if int (length appended) > maxRates then tl appended else appended);
                ra1 = ra\<lparr>rates := kept\<rparr>
            in (case Div (sum_rates kept) (of_nat (length kept)) of
                  Inl p \<Rightarrow> (ra1, Panicked p)
                | Inr avg \<Rightarrow> (ra1\<lparr>average := avg\<rparr>, Returned (Inr rate))))"

text \<open>
  Successive calls of \<open>Update\<close> on one averager, one for each answer of the service:
  the call of \<open>main\<close> at start-up and the calls of \<open>Run\<close> at its ticks. A returned
  error leaves the process running; a panic ends it, and the later answers are not
  consumed.
\<close>

fun refreshes :: "Averager \<Rightarrow> api_response list \<Rightarrow> Averager \<times> panic option" where
  "refreshes ra [] = (ra, None)"
| "refreshes ra (resp # resps) =
     (case Update ra resp of
        (ra1, Panicked p) \<Rightarrow> (ra1, Some p)
      | (ra1, Returned _) \<Rightarrow> refreshes ra1 resps)"

text \<open>
  \<open>Run\<close> over the answers the service gives at the successive ticks, up to the
  cancellation of the context. \<open>time.NewTicker\<close> panics on an interval that is not
  positive; an error returned by \<open>Update\<close> is logged and the loop goes on.
\<close>

definition Run :: "Averager \<Rightarrow> api_response list \<Rightarrow> Averager \<times> panic option" where
  "Run ra ticks =
     (if frequency ra \<le> 0 then (ra, Some NonPositiveTickerInterval)
      else refreshes ra ticks)"

definition Rate :: "Averager \<Rightarrow> decimal" where
  "Rate ra = average ra"

datatype Option = WithCurrency string | WithFrequency duration | WithLogger

fun apply_option :: "Option \<Rightarrow> Averager \<Rightarrow> Averager" where
  "apply_option (WithCurrency c) ra = ra\<lparr>currency := c\<rparr>"
| "apply_option (WithFrequency f) ra = ra\<lparr>frequency := f\<rparr>"
| "apply_option WithLogger ra = ra"

definition New :: "Option list \<Rightarrow> Averager" where
  "New opts =
     foldl (\<lambda>a opt. apply_option opt a)
       \<lparr>currency = ''usd'', frequency = 5 * Minute, rates = [], average = 0\<rparr> opts"

subsection \<open>Command hpind: the decision and the update round\<close>

record Prices =
  Storage :: decimal
  Ingress :: decimal
  Egress :: decimal

record Host =
  Address :: string
  Password :: string

record Config =
  Hosts :: "Host list"
  Prices :: Prices
  Currency :: string
  Frequency :: duration
  Threshold :: decimal

definition isOverThreshold :: "decimal \<Rightarrow> decimal \<Rightarrow> decimal \<Rightarrow> bool" where
  "isOverThreshold a b percentage =
     (let threshold = a * percentage;
          diff = \<bar>a - b\<bar>
      in diff > threshold)"

text \<open>
  \<open>types.Currency\<close> (go.sia.tech/core) is an unsigned 128-bit integer.
  \<open>decimal.String\<close> of the integer that \<open>Round(0)\<close> gives is its decimal numeral, and
  \<open>types.ParseCurrency\<close> reads such a numeral back, with an error when it is negative or
  does not fit in 128 bits. The model keeps the integer in place of its numeral.
\<close>

type_synonym currency_t = "128 word"

definition ParseCurrency :: "int \<Rightarrow> string + currency_t" where
  "ParseCurrency n =
     (if n < 0 then Inl ''value cannot be negative''
      else if 2 ^ 128 \<le> n then Inl ''value overflows Currency representation''
      else Inr (word_of_int n))"

definition convertToCurrency :: "decimal \<Rightarrow> decimal \<Rightarrow> panic + currency_t" where
  "convertToCurrency target rate =
     (case Div target rate of
        Inl p \<Rightarrow> Inl p
      | Inr q \<Rightarrow>
          (let hastings = Round0 (q * 10 ^ 24)
           in case ParseCurrency hastings of
                Inl err \<Rightarrow> Inl ParseCurrencyFailed
              | Inr c \<Rightarrow> Inr c))"

definition Div64 :: "currency_t \<Rightarrow> 64 word \<Rightarrow> currency_t" where
  "Div64 c v = c div ucast v"

text \<open>
  The host's answer to \<open>client.UpdateSettings\<close> with the three prices: \<open>None\<close> when the
  call succeeds, the error otherwise.
\<close>

type_synonym update_settings =
  "Host \<Rightarrow> currency_t \<Rightarrow> currency_t \<Rightarrow> currency_t \<Rightarrow> string option"

text \<open>
  The loop of \<open>updateHosts\<close> over the hosts. The result is the list of the hosts whose
  \<open>UpdateSettings\<close> was called, in call order, and the error returned (\<open>None\<close> for nil).
\<close>

fun update_loop ::
  "update_settings \<Rightarrow> currency_t \<Rightarrow> currency_t \<Rightarrow> currency_t \<Rightarrow> Host list
     \<Rightarrow> Host list \<times> error option" where
  "update_loop client sp ip ep [] = ([], None)"
| "update_loop client sp ip ep (h # hs) =
     (case client h sp ip ep of
        Some err \<Rightarrow> ([h], Some (FailedToUpdateHost (Address h) err))
      | None \<Rightarrow>
          (let (called, res) = update_loop client sp ip ep hs
           in (h # called, res)))"

definition updateHosts ::
  "update_settings \<Rightarrow> Host list \<Rightarrow> Prices \<Rightarrow> decimal
     \<Rightarrow> panic + (Host list \<times> error option)" where
  "updateHosts client hosts target rate =
     (case convertToCurrency (Storage target) rate of
        Inl p \<Rightarrow> Inl p
      | Inr s \<Rightarrow>
          (case convertToCurrency (Ingress target) rate of
             Inl p \<Rightarrow> Inl p
           | Inr i \<Rightarrow>
               (case convertToCurrency (Egress target) rate of
                  Inl p \<Rightarrow> Inl p
                | Inr e \<Rightarrow>
                    (let storagePrice = Div64 (Div64 s 4320) 1000000000000;
                         ingressPrice = Div64 i 1000000000000;
                         egressPrice = Div64 e 1000000000000
                     in Inr (update_loop client storagePrice ingressPrice egressPrice hosts)))))"

text \<open>
  One tick of the loop of \<open>main\<close>: \<open>lastRate\<close> is the local variable of that name,
  \<open>avg\<close> is what \<open>r.Rate()\<close> returned. The result is the value of \<open>lastRate\<close> when the
  iteration ends, and what the iteration did.
\<close>

datatype round_outcome =
    Skipped
  | Acted "panic + (Host list \<times> error option)"

definition main_tick ::
  "Config \<Rightarrow> update_settings \<Rightarrow> decimal \<Rightarrow> decimal \<Rightarrow> decimal \<times> round_outcome" where
  "main_tick cfg client lastRate avg =
     (if \<not> isOverThreshold lastRate avg (Threshold cfg) then (lastRate, Skipped)
      else (avg, Acted (updateHosts client (Hosts cfg) (Prices cfg) avg)))"

subsection \<open>Auxiliary notions for the statements\<close>

text \<open>
  The eviction step of \<open>Update\<close> on the buffer with the new rate appended: one sample
  is dropped from the front when the length exceeds \<open>maxRates\<close>.
\<close>

definition evict :: "int \<Rightarrow> decimal list \<Rightarrow> decimal list" where
  "evict maxRates appended =
     (if int (length appended) > maxRates then tl appended else appended)"

text \<open>
  The samples that arrive in a run: the rates that \<open>getExchangeRate\<close> extracts from
  the answers of the service, in order; answers without a rate contribute nothing.
\<close>

fun samples :: "string \<Rightarrow> api_response list \<Rightarrow> decimal list" where
  "samples cur [] = []"
| "samples cur (resp # resps) =
     (case getExchangeRate resp cur of
        Inl _ \<Rightarrow> samples cur resps
      | Inr rate \<Rightarrow> rate # samples cur resps)"

text \<open>\<open>Update\<close> came back with a non-nil error.\<close>

definition returned_error :: "update_outcome \<Rightarrow> bool" where
  "returned_error out = (case out of Returned (Inl _) \<Rightarrow> True | _ \<Rightarrow> False)"

text \<open>
  The value of \<open>d.Div(d2)\<close> for a divisor that is not zero: the quotient rounded to 16
  decimal places, half away from zero.
\<close>

definition quotient16 :: "decimal \<Rightarrow> decimal \<Rightarrow> decimal" where
  "quotient16 d d2 = of_int (round_half_away (d / d2 * 10 ^ 16)) / 10 ^ 16"

text \<open>
  The amount that \<open>convertToCurrency\<close> hands to \<open>types.ParseCurrency\<close> for a rate that
  is not zero: \<open>target.Div(rate).Mul(decimal.New(1, 24)).Round(0)\<close>.
\<close>

definition hastings :: "decimal \<Rightarrow> decimal \<Rightarrow> int" where
  "hastings target rate = Round0 (quotient16 target rate * 10 ^ 24)"

text \<open>
  The amount in the words of the specification, with the exact quotient: the target
  divided by the rate, scaled by \<open>10 ^ 24\<close> and rounded to an integer.
\<close>

definition spec_hastings :: "decimal \<Rightarrow> decimal \<Rightarrow> int" where
  "spec_hastings target rate = round_half_away (target / rate * 10 ^ 24)"

subsection \<open>Example inputs\<close>

definition usd_quote :: "decimal \<Rightarrow> api_response" where
  "usd_quote x = ApiRates [''usd'' \<mapsto> x]"

definition eur_quote :: "decimal \<Rightarrow> api_response" where
  "eur_quote x = ApiRates [''eur'' \<mapsto> x]"

definition service_down :: api_response where
  "service_down = ApiError ''timeout''"

definition host_a :: Host where
  "host_a = \<lparr>Address = ''http://a:9980/api'', Password = ''pw''\<rparr>"

definition host_b :: Host where
  "host_b = \<lparr>Address = ''http://b:9980/api'', Password = ''pw''\<rparr>"

definition accepting :: update_settings where
  "accepting h sp ip ep = None"

definition refusing :: update_settings where
  "refusing h sp ip ep = Some ''connection refused''"

definition a_refuses :: update_settings where
  "a_refuses h sp ip ep = (if h = host_a then Some ''connection refused'' else None)"

definition wants_ingress :: "currency_t \<Rightarrow> update_settings" where
  "wants_ingress p h sp ip ep = (if ip = p then None else Some ''unexpected ingress price'')"

definition near_one_prices :: Prices where
  "near_one_prices = \<lparr>Storage = 1, Ingress = 99999999999999999 / 10 ^ 17, Egress = 10\<rparr>"

definition default_prices :: Prices where
  "default_prices = \<lparr>Storage = 1, Ingress = 1 / 10, Egress = 10\<rparr>"

definition example_config :: Config where
  "example_config = \<lparr>Hosts = [host_a, host_b], Prices = default_prices, Currency = ''usd'',
     Frequency = 5 * Minute, Threshold = 1 / 10\<rparr>"

definition mispriced_config :: Config where
  "mispriced_config = example_config\<lparr>Prices := \<lparr>Storage = - 1, Ingress = 1 / 10, Egress = 10\<rparr>\<rparr>"

section \<open>Properties\<close>

subsection \<open>Construction\<close>

lemma New_rates_average: "rates (New opts) = [] \<and> average (New opts) = 0"
proof -
  have "rates (foldl (\<lambda>a opt. apply_option opt a) ra opts) = rates ra
      \<and> average (foldl (\<lambda>a opt. apply_option opt a) ra opts) = average ra" for ra
  proof (induction opts arbitrary: ra)
    case Nil
    show ?case by simp
  next
    case (Cons opt opts)
    have "rates (apply_option opt ra) = rates ra \<and> average (apply_option opt ra) = average ra"
      by (cases opt) simp_all
    with Cons.IH [of "apply_option opt ra"] show ?case by simp
  qed
  then show ?thesis by (simp add: New_def)
qed

subsection \<open>Decimal arithmetic\<close>

lemma foldl_add_sum_list: "foldl (\<lambda>sum r. sum + r) a rs = a + sum_list (rs :: rat list)"
  by (induction rs arbitrary: a) (simp_all add: add.assoc)

lemma sum_rates_sum_list: "sum_rates rs = sum_list rs"
  by (simp add: sum_rates_def foldl_add_sum_list)

lemma sdiv_positive: "0 < f \<Longrightarrow> (48 * Hour) sdiv f = (48 * Hour) div f"
  by (simp add: signed_divide_int_def Hour_def Minute_def)

lemma max_rates_nonneg: "0 < f \<Longrightarrow> 0 \<le> (48 * Hour) div f"
  by (simp add: Hour_def Minute_def pos_imp_zdiv_nonneg_iff)

lemma round_half_away_error: "\<bar>of_int (round_half_away y) - y\<bar> \<le> 1 / 2"
proof (cases "0 \<le> y")
  case True
  then have r: "round_half_away y = \<lfloor>y + 1 / 2\<rfloor>"
    by (simp add: round_half_away_def)
  have "of_int \<lfloor>y + 1 / 2\<rfloor> \<le> y + 1 / 2" "y + 1 / 2 < of_int \<lfloor>y + 1 / 2\<rfloor> + 1"
    by linarith+
  then show ?thesis unfolding r by linarith
next
  case False
  then have r: "of_int (round_half_away y) = - (of_int \<lfloor>- y + 1 / 2\<rfloor> :: rat)"
    by (simp add: round_half_away_def)
  have "of_int \<lfloor>- y + 1 / 2\<rfloor> \<le> - y + 1 / 2" "- y + 1 / 2 < of_int \<lfloor>- y + 1 / 2\<rfloor> + 1"
    by linarith+
  then show ?thesis unfolding r by linarith
qed

lemma Div_nonzero: "d2 \<noteq> 0 \<Longrightarrow> Div d d2 = Inr (of_int (round_half_away (d / d2 * 10 ^ 16)) / 10 ^ 16)"
  by (simp add: Div_def DivRound_def DivisionPrecision_def)

lemma Div_zero: "Div d 0 = Inl DecimalDivisionByZero"
  by (simp add: Div_def DivRound_def)

lemma Div_error:
  assumes "Div d d2 = Inr q"
  shows "d2 \<noteq> 0 \<and> \<bar>q - d / d2\<bar> \<le> 1 / (2 * 10 ^ 16)"
proof -
  from assms have nz: "d2 \<noteq> 0" by (auto simp: Div_zero)
  with assms have q: "q = of_int (round_half_away (d / d2 * 10 ^ 16)) / 10 ^ 16"
    by (simp add: Div_nonzero)
  have "\<bar>q - d / d2\<bar> = \<bar>of_int (round_half_away (d / d2 * 10 ^ 16)) - d / d2 * 10 ^ 16\<bar> / 10 ^ 16"
    unfolding q by (simp add: field_simps)
  also have "\<dots> \<le> (1 / 2) / 10 ^ 16"
    by (rule divide_right_mono [OF round_half_away_error]) simp
  finally show ?thesis using nz by simp
qed


subsection \<open>One call of Update\<close>

lemma getExchangeRate_Inl_iff:
  "(\<exists>cause. getExchangeRate resp cur = Inl cause)
     = ((\<exists>e. resp = ApiError e) \<or> (\<exists>rs. resp = ApiRates rs \<and> rs cur = None))"
  by (cases resp) (auto simp: getExchangeRate_def split: option.splits)

lemma Update_quote_failed:
  "getExchangeRate resp (currency ra) = Inl cause
     \<Longrightarrow> Update ra resp = (ra, Returned (Inl (FailedToGetExchangeRate cause)))"
  by (simp add: Update_def)

lemma Update_quote_ok:
  assumes "getExchangeRate resp (currency ra) = Inr rate"
  shows "Update ra resp =
     (if frequency ra = 0 then (ra, Panicked IntegerDivideByZero)
      else let kept = evict ((48 * Hour) sdiv frequency ra) (rates ra @ [rate])
           in if kept = [] then (ra\<lparr>rates := kept\<rparr>, Panicked DecimalDivisionByZero)
              else (ra\<lparr>rates := kept,
                       average := of_int (round_half_away (sum_list kept / of_nat (length kept) * 10 ^ 16)) / 10 ^ 16\<rparr>,
                    Returned (Inr rate)))"
  using assms
  by (simp add: Update_def Let_def evict_def sum_rates_sum_list Div_zero Div_nonzero)

lemma Update_returned_error_iff:
  "returned_error (snd (Update ra resp)) = (\<exists>cause. getExchangeRate resp (currency ra) = Inl cause)"
proof (cases "getExchangeRate resp (currency ra)")
  case (Inl cause)
  then show ?thesis by (simp add: Update_quote_failed returned_error_def)
next
  case (Inr rate)
  then show ?thesis by (simp add: Update_quote_ok returned_error_def Let_def)
qed

lemma max_rates_zero: "48 * Hour < f \<Longrightarrow> (48 * Hour) sdiv f = 0"
  by (simp add: signed_divide_int_def Hour_def Minute_def)

lemma max_rates_positive: "0 < f \<Longrightarrow> f \<le> 48 * Hour \<Longrightarrow> 1 \<le> (48 * Hour) sdiv f"
proof -
  assume f: "0 < f" "f \<le> 48 * Hour"
  then have "0 < (48 * Hour) div f" by (simp only: pos_imp_zdiv_pos_iff)
  with f(1) show ?thesis by (simp add: sdiv_positive)
qed

lemma evict_last:
  assumes "0 \<le> m"
  shows "evict m (drop (length pre - nat m) pre @ [x])
           = drop (length (pre @ [x]) - nat m) (pre @ [x])"
proof (cases "length pre < nat m")
  case True
  with assms have "int (length pre) < m" by linarith
  with True show ?thesis by (simp add: evict_def)
next
  case False
  then have len: "length (drop (length pre - nat m) pre) = nat m" by simp
  show ?thesis
  proof (cases "nat m = 0")
    case True
    with assms show ?thesis by (simp add: evict_def)
  next
    case pos: False
    with len have ne: "drop (length pre - nat m) pre \<noteq> []" by auto
    from False have s: "Suc (length pre) - nat m = Suc (length pre - nat m)" by simp
    from assms len have "evict m (drop (length pre - nat m) pre @ [x])
        = tl (drop (length pre - nat m) pre @ [x])"
      by (simp add: evict_def)
    also have "\<dots> = tl (drop (length pre - nat m) pre) @ [x]" using ne by simp
    also have "\<dots> = drop (Suc (length pre - nat m)) pre @ [x]" by (simp add: drop_Suc tl_drop)
    finally show ?thesis using s False pos by simp
  qed
qed

lemma Update_fields:
  assumes "Update ra resp = (ra1, out)"
  shows "currency ra1 = currency ra \<and> frequency ra1 = frequency ra"
proof (cases "getExchangeRate resp (currency ra)")
  case (Inl cause)
  with assms show ?thesis by (simp add: Update_quote_failed)
next
  case (Inr rate)
  with assms show ?thesis by (auto simp: Update_quote_ok Let_def split: if_splits)
qed

lemma Update_keeps_last:
  assumes f: "0 < frequency ra"
    and inv: "rates ra = drop (length pre - nat ((48 * Hour) div frequency ra)) pre"
    and u: "Update ra resp = (ra1, out)"
  shows "rates ra1 = drop (length (pre @ samples (currency ra) [resp]) - nat ((48 * Hour) div frequency ra))
                       (pre @ samples (currency ra) [resp])"
proof (cases "getExchangeRate resp (currency ra)")
  case (Inl cause)
  with u inv show ?thesis by (simp add: Update_quote_failed)
next
  case (Inr rate)
  let ?m = "(48 * Hour) div frequency ra"
  from f have m: "0 \<le> ?m" by (rule max_rates_nonneg)
  from Inr u f have "rates ra1 = evict ?m (rates ra @ [rate])"
    by (auto simp: Update_quote_ok Let_def sdiv_positive split: if_splits)
  with inv evict_last [OF m, of pre rate] Inr show ?thesis by simp
qed

lemma samples_append: "samples cur (xs @ ys) = samples cur xs @ samples cur ys"
  by (induction xs) (simp_all split: sum.splits)

lemma refreshes_keep_last:
  assumes "0 < frequency ra"
    and "rates ra = drop (length pre - nat ((48 * Hour) div frequency ra)) pre"
    and "refreshes ra resps = (ra', fin)"
  shows "rates ra' = drop (length (pre @ samples (currency ra) resps) - nat ((48 * Hour) div frequency ra))
             (pre @ samples (currency ra) resps) \<or> fin \<noteq> None"
  using assms
proof (induction resps arbitrary: ra pre)
  case Nil
  then show ?case by simp
next
  case (Cons resp resps)
  obtain ra1 out where u: "Update ra resp = (ra1, out)" by (cases "Update ra resp")
  note fields = Update_fields [OF u]
  note step = Update_keeps_last [OF Cons.prems(1,2) u]
  show ?case
  proof (cases out)
    case (Panicked p)
    with u Cons.prems(3) show ?thesis by auto
  next
    case (Returned r)
    with u Cons.prems(3) have run: "refreshes ra1 resps = (ra', fin)" by simp
    from Cons.prems(1) fields have f1: "0 < frequency ra1" by simp
    from step fields have inv1: "rates ra1 =
        drop (length (pre @ samples (currency ra) [resp]) - nat ((48 * Hour) div frequency ra1))
          (pre @ samples (currency ra) [resp])" by simp
    from Cons.IH [OF f1 inv1 run] fields
    show ?thesis
      using samples_append [of "currency ra" "[resp]" resps] by (simp del: samples.simps)
  qed
qed

lemma refreshes_no_panic:
  assumes "0 < frequency ra" and "frequency ra \<le> 48 * Hour"
  shows "snd (refreshes ra resps) = None"
  using assms
proof (induction resps arbitrary: ra)
  case Nil
  then show ?case by simp
next
  case (Cons resp resps)
  obtain ra1 out where u: "Update ra resp = (ra1, out)" by (cases "Update ra resp")
  note fields = Update_fields [OF u]
  have "\<exists>r. out = Returned r"
  proof (cases "getExchangeRate resp (currency ra)")
    case (Inl cause)
    with u show ?thesis by (auto simp: Update_quote_failed)
  next
    case (Inr rate)
    from Cons.prems have "1 \<le> (48 * Hour) sdiv frequency ra" by (rule max_rates_positive)
    then have "evict ((48 * Hour) sdiv frequency ra) (rates ra @ [rate]) \<noteq> []"
      by (cases "rates ra") (auto simp: evict_def)
    with Inr u Cons.prems(1) show ?thesis by (auto simp: Update_quote_ok Let_def)
  qed
  then obtain r where "out = Returned r" ..
  with u have "refreshes ra (resp # resps) = refreshes ra1 resps" by simp
  with Cons.IH [of ra1] Cons.prems fields show ?case by simp
qed


subsection \<open>Conversion and the update round\<close>

lemma round_half_away_nonneg: "0 \<le> x \<Longrightarrow> 0 \<le> round_half_away x"
  by (simp add: round_half_away_def)

lemma round_half_away_of_int: "round_half_away (of_int n) = n"
proof (cases "0 \<le> n")
  case True
  then show ?thesis by (simp add: round_half_away_def) linarith
next
  case False
  then show ?thesis by (simp add: round_half_away_def) linarith
qed

lemma hastings_multiple:
  "hastings target rate = round_half_away (target / rate * 10 ^ 16) * 10 ^ 8"
proof -
  have "(of_int (round_half_away (target / rate * 10 ^ 16)) / 10 ^ 16 * 10 ^ 24 :: rat)
      = of_int (round_half_away (target / rate * 10 ^ 16) * 10 ^ 8)"
    by simp
  then show ?thesis unfolding hastings_def quotient16_def Round0_def
    by (simp only: round_half_away_of_int)
qed

lemma hastings_nonneg: "0 < rate \<Longrightarrow> 0 \<le> target \<Longrightarrow> 0 \<le> hastings target rate"
  by (simp add: hastings_multiple round_half_away_nonneg)

lemma hastings_exact:
  assumes "target / rate = of_int k / 10 ^ 16"
  shows "hastings target rate = spec_hastings target rate"
proof -
  have "hastings target rate = k * 10 ^ 8"
    unfolding hastings_multiple assms by (simp add: round_half_away_of_int)
  moreover have "(of_int k / 10 ^ 16 * 10 ^ 24 :: rat) = of_int (k * 10 ^ 8)"
    by simp
  then have "spec_hastings target rate = k * 10 ^ 8"
    unfolding spec_hastings_def assms by (simp only: round_half_away_of_int)
  ultimately show ?thesis by simp
qed

lemma convertToCurrency_eq:
  "convertToCurrency target rate =
     (if rate = 0 then Inl DecimalDivisionByZero
      else if hastings target rate < 0 \<or> 2 ^ 128 \<le> hastings target rate
        then Inl ParseCurrencyFailed
      else Inr (word_of_int (hastings target rate)))"
  by (simp add: convertToCurrency_def Div_zero Div_nonzero ParseCurrency_def
      hastings_def quotient16_def Let_def)

lemma uint_hastings:
  "0 \<le> n \<Longrightarrow> n < 2 ^ 128 \<Longrightarrow> uint (word_of_int n :: currency_t) = n"
  by (simp add: uint_word_of_int take_bit_eq_mod)

lemma uint_Div64: "uint (Div64 c v) = uint c div uint v"
proof -
  have "uint v < 2 ^ 64" using uint_bounded [of v] by simp
  then have "uint v < 2 ^ 128" by simp
  then have "uint (ucast v :: currency_t) = uint v"
    by (simp add: unsigned_ucast_eq take_bit_int_eq_self)
  then show ?thesis by (simp add: Div64_def uint_div)
qed

lemma update_loop_all_ok:
  "\<forall>h\<in>set hosts. client h sp ip ep = None
     \<Longrightarrow> update_loop client sp ip ep hosts = (hosts, None)"
  by (induction hosts) simp_all

lemma update_loop_first_failure:
  "\<forall>g\<in>set pre. client g sp ip ep = None \<Longrightarrow> client h sp ip ep = Some err
     \<Longrightarrow> update_loop client sp ip ep (pre @ h # post)
           = (pre @ [h], Some (FailedToUpdateHost (Address h) err))"
  by (induction pre) simp_all

lemma update_loop_cases:
  "update_loop client sp ip ep hosts = (hosts, None) \<and> (\<forall>h\<in>set hosts. client h sp ip ep = None)
   \<or> (\<exists>pre h post err. hosts = pre @ h # post
         \<and> (\<forall>g\<in>set pre. client g sp ip ep = None)
         \<and> client h sp ip ep = Some err
         \<and> update_loop client sp ip ep hosts
             = (pre @ [h], Some (FailedToUpdateHost (Address h) err)))"
proof (cases "\<exists>h\<in>set hosts. client h sp ip ep \<noteq> None")
  case False
  then show ?thesis by (simp add: update_loop_all_ok)
next
  case True
  from split_list_first_prop [OF True]
  obtain pre h post where hosts: "hosts = pre @ h # post"
    and h: "client h sp ip ep \<noteq> None"
    and pre: "\<forall>g\<in>set pre. \<not> client g sp ip ep \<noteq> None"
    by blast
  from h obtain err where err: "client h sp ip ep = Some err" by auto
  from pre have pre': "\<forall>g\<in>set pre. client g sp ip ep = None" by simp
  have "update_loop client sp ip ep (pre @ h # post)
      = (pre @ [h], Some (FailedToUpdateHost (Address h) err))"
    using pre' err by (rule update_loop_first_failure)
  with hosts pre' err show ?thesis by blast
qed

lemma updateHosts_eq:
  "updateHosts client hosts target rate =
     (case convertToCurrency (Storage target) rate of
        Inl p \<Rightarrow> Inl p
      | Inr s \<Rightarrow>
          (case convertToCurrency (Ingress target) rate of
             Inl p \<Rightarrow> Inl p
           | Inr i \<Rightarrow>
               (case convertToCurrency (Egress target) rate of
                  Inl p \<Rightarrow> Inl p
                | Inr e \<Rightarrow>
                    Inr (update_loop client (Div64 (Div64 s 4320) 1000000000000)
                           (Div64 i 1000000000000) (Div64 e 1000000000000) hosts))))"
  by (simp add: updateHosts_def Let_def split: sum.splits)

lemma convertToCurrency_in_range:
  assumes "0 < rate" and "0 \<le> target" and "hastings target rate < 2 ^ 128"
  shows "convertToCurrency target rate = Inr (word_of_int (hastings target rate))
       \<and> uint (word_of_int (hastings target rate) :: currency_t) = hastings target rate"
proof -
  from assms(1,2) have "0 \<le> hastings target rate" by (rule hastings_nonneg)
  with assms show ?thesis by (simp add: convertToCurrency_eq uint_hastings)
qed

lemma convertToCurrency_positive_rate:
  assumes "0 < rate" and "0 \<le> target"
  shows "convertToCurrency target rate =
     (if hastings target rate < 2 ^ 128 then Inr (word_of_int (hastings target rate))
      else Inl ParseCurrencyFailed)"
proof -
  from assms have "0 \<le> hastings target rate" by (rule hastings_nonneg)
  with assms(1) show ?thesis by (simp add: convertToCurrency_eq)
qed


section \<open>The claims\<close>

subsection \<open>The sample buffer\<close>

text \<open>
  C1. Take an averager built by \<open>New\<close> with a positive sample interval, and any
  sequence of refreshes of it (calls of \<open>Update\<close>, as \<open>Run\<close> makes them at its
  ticks), some of which may return an error. The capacity is the floor of 48 hours by the
  interval. As long as no call has panicked, the buffer is not longer than the capacity,
  and it holds the last capacity-many samples that arrived, in arrival order (all of them
  while fewer have arrived): the sample evicted is always the oldest. For an interval of
  at most 48 hours no call panics.
\<close>

theorem C1_buffer_holds_last_samples:
  assumes "0 < frequency (New opts)"
  shows "Run (New opts) resps = refreshes (New opts) resps
       \<and> (frequency (New opts) \<le> 48 * Hour \<longrightarrow> snd (refreshes (New opts) resps) = None)
       \<and> (refreshes (New opts) resps = (ra, None)
            \<longrightarrow> int (length (rates ra)) \<le> (48 * Hour) div frequency (New opts)
              \<and> length (rates ra)
                  = min (length (samples (currency (New opts)) resps))
                        (nat ((48 * Hour) div frequency (New opts)))
              \<and> rates ra = drop (length (samples (currency (New opts)) resps)
                                   - nat ((48 * Hour) div frequency (New opts)))
                              (samples (currency (New opts)) resps))"
proof (intro conjI impI)
  from assms show "Run (New opts) resps = refreshes (New opts) resps"
    by (simp add: Run_def)
next
  assume "frequency (New opts) \<le> 48 * Hour"
  with assms show "snd (refreshes (New opts) resps) = None" by (rule refreshes_no_panic)
next
  assume run: "refreshes (New opts) resps = (ra, None)"
  have "rates (New opts)
      = drop (length ([] :: decimal list) - nat ((48 * Hour) div frequency (New opts))) []"
    using New_rates_average [of opts] by simp
  from refreshes_keep_last [OF assms this run]
  show r: "rates ra = drop (length (samples (currency (New opts)) resps)
                                   - nat ((48 * Hour) div frequency (New opts)))
                              (samples (currency (New opts)) resps)" by simp
  from assms have "0 \<le> (48 * Hour) div frequency (New opts)" by (rule max_rates_nonneg)
  then show "int (length (rates ra)) \<le> (48 * Hour) div frequency (New opts)"
    unfolding r by simp
  show "length (rates ra)
      = min (length (samples (currency (New opts)) resps))
            (nat ((48 * Hour) div frequency (New opts)))"
    unfolding r by simp
qed

theorem C1_buffer_holds_last_samples_witness:
  "0 < frequency (New [WithFrequency (24 * Hour)])
   \<and> Run (New [WithFrequency (24 * Hour)])
         [usd_quote 1, service_down, usd_quote 2, eur_quote 9, usd_quote 3]
       = (\<lparr>currency = ''usd'', frequency = 24 * Hour, rates = [2, 3], average = 5 / 2\<rparr>, None)
   \<and> int (length [2, 3 :: decimal]) \<le> (48 * Hour) div (24 * Hour)
   \<and> [2, 3] = drop (length [1, 2, 3 :: decimal] - 2) [1, 2, 3 :: decimal]"
proof -
  let ?opts = "[WithFrequency (24 * Hour)]"
  let ?resps = "[usd_quote 1, service_down, usd_quote 2, eur_quote 9, usd_quote 3]"
  let ?ra = "\<lparr>currency = ''usd'', frequency = 24 * Hour, rates = [2, 3], average = 5 / 2\<rparr>"
  have f: "0 < frequency (New ?opts)" by code_simp
  have run: "refreshes (New ?opts) ?resps = (?ra, None)" by code_simp
  have s: "samples (currency (New ?opts)) ?resps = [1, 2, 3]" by code_simp
  have m: "(48 * Hour) div frequency (New ?opts) = 2" by code_simp
  have h: "(48 * Hour) div (24 * Hour) = 2" by code_simp
  from C1_buffer_holds_last_samples [OF f, of ?resps ?ra] f run s m h
  show ?thesis by simp
qed

subsection \<open>The cached average\<close>

text \<open>
  C2, as the claim states it, fails: with an interval of 16 hours and the quotes 1, 1
  and 2, the buffer is \<open>[1, 1, 2]\<close>, whose mean is 4/3, and the cached average is
  1.3333333333333333.
\<close>

theorem C2_average_is_not_the_exact_mean:
  "refreshes (New [WithFrequency (16 * Hour)]) [usd_quote 1, usd_quote 1, usd_quote 2]
     = (\<lparr>currency = ''usd'', frequency = 16 * Hour, rates = [1, 1, 2],
          average = 13333333333333333 / 10 ^ 16\<rparr>, None)
   \<and> sum_list [1, 1, 2 :: decimal] / of_nat (length [1, 1, 2 :: decimal]) = 4 / 3
   \<and> (13333333333333333 / 10 ^ 16 :: decimal) \<noteq> 4 / 3"
proof -
  have "refreshes (New [WithFrequency (16 * Hour)]) [usd_quote 1, usd_quote 1, usd_quote 2]
     = (\<lparr>currency = ''usd'', frequency = 16 * Hour, rates = [1, 1, 2],
          average = 13333333333333333 / 10 ^ 16\<rparr>, None)"
    by code_simp
  then show ?thesis by simp
qed

text \<open>
  C2, amended. When \<open>Update\<close> returns a rate, the buffer is not empty and the cached
  average is the sum of the buffered samples divided by their number with the division
  of the decimal type (\<open>Div\<close>): the arithmetic mean rounded to 16 decimal places, half
  away from zero. It is the exact mean whenever the mean has at most 16 decimal places,
  and within half a unit of the sixteenth place of it always. When \<open>Update\<close> returns an
  error, the averager (buffer and average) is as it was.
\<close>

theorem C2_average_is_rounded_mean:
  "(Update ra resp = (ra', Returned (Inr rate))
      \<longrightarrow> rates ra' \<noteq> []
        \<and> Div (sum_list (rates ra')) (of_nat (length (rates ra'))) = Inr (average ra')
        \<and> average ra' = quotient16 (sum_list (rates ra')) (of_nat (length (rates ra')))
        \<and> (sum_list (rates ra') / of_nat (length (rates ra')) = of_int k / 10 ^ 16
             \<longrightarrow> average ra' = sum_list (rates ra') / of_nat (length (rates ra')))
        \<and> \<bar>average ra' - sum_list (rates ra') / of_nat (length (rates ra'))\<bar>
             \<le> 1 / (2 * 10 ^ 16))
   \<and> (Update ra resp = (ra', Returned (Inl err)) \<longrightarrow> ra' = ra)"
proof (intro conjI impI)
  assume u: "Update ra resp = (ra', Returned (Inl err))"
  show "ra' = ra"
  proof (cases "getExchangeRate resp (currency ra)")
    case (Inl cause)
    with u show ?thesis by (simp add: Update_quote_failed)
  next
    case (Inr x)
    with u show ?thesis by (simp add: Update_quote_ok Let_def split: if_splits)
  qed
next
  assume u: "Update ra resp = (ra', Returned (Inr rate))"
  then obtain x where x: "getExchangeRate resp (currency ra) = Inr x"
    by (cases "getExchangeRate resp (currency ra)") (auto simp: Update_quote_failed)
  let ?kept = "evict ((48 * Hour) sdiv frequency ra) (rates ra @ [x])"
  from u x have ne: "?kept \<noteq> []"
    and ra': "ra' = ra\<lparr>rates := ?kept,
        average := of_int (round_half_away (sum_list ?kept / of_nat (length ?kept) * 10 ^ 16))
                     / 10 ^ 16\<rparr>"
    by (auto simp: Update_quote_ok Let_def split: if_splits)
  from ne show "rates ra' \<noteq> []" by (simp add: ra')
  from ne have len: "(of_nat (length ?kept) :: rat) \<noteq> 0" by simp
  show d: "Div (sum_list (rates ra')) (of_nat (length (rates ra'))) = Inr (average ra')"
    using len by (simp add: ra' Div_nonzero)
  show q: "average ra' = quotient16 (sum_list (rates ra')) (of_nat (length (rates ra')))"
    by (simp add: ra' quotient16_def)
  from Div_error [OF d]
  show "\<bar>average ra' - sum_list (rates ra') / of_nat (length (rates ra'))\<bar> \<le> 1 / (2 * 10 ^ 16)"
    by simp
  assume exact: "sum_list (rates ra') / of_nat (length (rates ra')) = of_int k / 10 ^ 16"
  have "average ra' = of_int (round_half_away (of_int k)) / 10 ^ 16"
    unfolding q quotient16_def exact by simp
  also have "\<dots> = of_int k / 10 ^ 16"
    by (simp only: round_half_away_of_int)
  finally have "average ra' = of_int k / 10 ^ 16" .
  then show "average ra' = sum_list (rates ra') / of_nat (length (rates ra'))"
    by (simp only: exact)
qed

theorem C2_average_is_rounded_mean_witness:
  "Update (fst (refreshes (New [WithFrequency (16 * Hour)]) [usd_quote 1, usd_quote 1]))
       (usd_quote 2)
     = (\<lparr>currency = ''usd'', frequency = 16 * Hour, rates = [1, 1, 2],
          average = 13333333333333333 / 10 ^ 16\<rparr>, Returned (Inr 2))
   \<and> Div (sum_list [1, 1, 2]) (of_nat (length [1, 1, 2 :: decimal]))
       = Inr (13333333333333333 / 10 ^ 16)
   \<and> quotient16 (sum_list [1, 1, 2]) (of_nat (length [1, 1, 2 :: decimal]))
       = 13333333333333333 / 10 ^ 16
   \<and> \<bar>13333333333333333 / 10 ^ 16 - (4 / 3 :: decimal)\<bar> \<le> 1 / (2 * 10 ^ 16)
   \<and> Update (fst (refreshes (New [WithFrequency (16 * Hour)])
                     [usd_quote 1, usd_quote 1, usd_quote 2])) (usd_quote 4)
     = (\<lparr>currency = ''usd'', frequency = 16 * Hour, rates = [1, 2, 4],
          average = 23333333333333333 / 10 ^ 16\<rparr>, Returned (Inr 4))
   \<and> Update (fst (refreshes (New [WithFrequency (24 * Hour)]) [usd_quote 1])) (usd_quote 2)
     = (\<lparr>currency = ''usd'', frequency = 24 * Hour, rates = [1, 2], average = 3 / 2\<rparr>,
        Returned (Inr 2))
   \<and> sum_list [1, 2 :: decimal] / of_nat (length [1, 2 :: decimal])
       = of_int 15000000000000000 / 10 ^ 16
   \<and> snd (Update (New []) service_down)
       = Returned (Inl (FailedToGetExchangeRate (Transport ''timeout'')))
   \<and> fst (Update (New []) service_down) = New []"
proof -
  let ?two = "fst (refreshes (New [WithFrequency (16 * Hour)]) [usd_quote 1, usd_quote 1])"
  let ?three = "fst (refreshes (New [WithFrequency (16 * Hour)])
                     [usd_quote 1, usd_quote 1, usd_quote 2])"
  let ?one = "fst (refreshes (New [WithFrequency (24 * Hour)]) [usd_quote 1])"
  let ?ra = "\<lparr>currency = ''usd'', frequency = 16 * Hour, rates = [1, 1, 2],
      average = 13333333333333333 / 10 ^ 16\<rparr>"
  let ?rb = "\<lparr>currency = ''usd'', frequency = 24 * Hour, rates = [1, 2], average = 3 / 2\<rparr>"
  let ?rc = "\<lparr>currency = ''usd'', frequency = 16 * Hour, rates = [1, 2, 4],
      average = 23333333333333333 / 10 ^ 16\<rparr>"
  let ?err = "FailedToGetExchangeRate (Transport ''timeout'')"
  have rounded: "Update ?two (usd_quote 2) = (?ra, Returned (Inr 2))" by code_simp
  have evicted: "Update ?three (usd_quote 4) = (?rc, Returned (Inr 4))" by code_simp
  have exact: "Update ?one (usd_quote 2) = (?rb, Returned (Inr 2))" by code_simp
  have e: "snd (Update (New []) service_down) = Returned (Inl ?err)" by code_simp
  then have failed: "Update (New []) service_down
      = (fst (Update (New []) service_down), Returned (Inl ?err))"
    by (simp add: prod_eq_iff)
  from C2_average_is_rounded_mean
      [of "New []" service_down "fst (Update (New []) service_down)" _ _ ?err] failed
  have unchanged: "fst (Update (New []) service_down) = New []" by blast
  from C2_average_is_rounded_mean [of ?two "usd_quote 2" ?ra 2] rounded
  have r: "Div (sum_list [1, 1, 2]) (of_nat (length [1, 1, 2 :: decimal]))
        = Inr (13333333333333333 / 10 ^ 16)
      \<and> quotient16 (sum_list [1, 1, 2]) (of_nat (length [1, 1, 2 :: decimal]))
        = 13333333333333333 / 10 ^ 16
      \<and> \<bar>13333333333333333 / 10 ^ 16 - (4 / 3 :: decimal)\<bar> \<le> 1 / (2 * 10 ^ 16)"
    by simp
  from C2_average_is_rounded_mean [of ?one "usd_quote 2" ?rb 2 15000000000000000] exact
  have x: "sum_list [1, 2 :: decimal] / of_nat (length [1, 2 :: decimal])
        = of_int 15000000000000000 / 10 ^ 16" by simp
  from rounded evicted exact e unchanged r x show ?thesis by blast
qed

subsection \<open>Failure of a refresh\<close>

text \<open>
  C7. \<open>Update\<close> returns an error exactly when the answer of the service is an error or
  has no rate for the averager's currency. In both cases the error is of the one kind
  \<open>FailedToGetExchangeRate\<close> (the wrapped cause tells them apart), and the averager is
  returned as it was: neither the buffer nor the average has changed.
\<close>

theorem C7_update_fails_iff_quote_unavailable:
  "returned_error (snd (Update ra resp))
     = ((\<exists>e. resp = ApiError e) \<or> (\<exists>rs. resp = ApiRates rs \<and> rs (currency ra) = None))
   \<and> (returned_error (snd (Update ra resp))
        \<longrightarrow> (\<exists>cause. Update ra resp = (ra, Returned (Inl (FailedToGetExchangeRate cause)))))"
proof -
  have "returned_error (snd (Update ra resp))
      \<longrightarrow> (\<exists>cause. Update ra resp = (ra, Returned (Inl (FailedToGetExchangeRate cause))))"
    unfolding Update_returned_error_iff by (auto dest: Update_quote_failed)
  then show ?thesis
    by (simp add: Update_returned_error_iff getExchangeRate_Inl_iff)
qed

theorem C7_update_fails_iff_quote_unavailable_witness:
  "returned_error (snd (Update (New []) service_down))
   \<and> returned_error (snd (Update (New []) (eur_quote 1)))
   \<and> \<not> returned_error (snd (Update (New []) (usd_quote 1)))
   \<and> (\<exists>cause. Update (New []) service_down
         = (New [], Returned (Inl (FailedToGetExchangeRate cause))))
   \<and> (\<exists>cause. Update (New []) (eur_quote 1)
         = (New [], Returned (Inl (FailedToGetExchangeRate cause))))"
proof -
  have c: "currency (New []) = ''usd''" by code_simp
  have down: "returned_error (snd (Update (New []) service_down))"
    using C7_update_fails_iff_quote_unavailable [of "New []" service_down]
    by (simp add: service_down_def)
  have eur: "returned_error (snd (Update (New []) (eur_quote 1)))"
    using C7_update_fails_iff_quote_unavailable [of "New []" "eur_quote 1"] c
    by (simp add: eur_quote_def)
  have usd: "\<not> returned_error (snd (Update (New []) (usd_quote 1)))"
    using C7_update_fails_iff_quote_unavailable [of "New []" "usd_quote 1"] c
    by (simp add: usd_quote_def)
  from down eur usd
    C7_update_fails_iff_quote_unavailable [of "New []" service_down]
    C7_update_fails_iff_quote_unavailable [of "New []" "eur_quote 1"]
  show ?thesis by blast
qed

subsection \<open>An interval longer than the window\<close>

text \<open>
  C9. Take an averager with an empty buffer (as \<open>New\<close> builds it) and an answer of the
  service that has a rate for its currency. When the sample interval is longer than 48
  hours, \<open>maxRates\<close> is 0: \<open>Update\<close> appends the sample, evicts it, and the division of
  the sum by the length 0 panics, the buffer being empty as before. When the interval is
  positive and at most 48 hours, \<open>Update\<close> returns the rate and the buffer holds it.
\<close>

theorem C9_zero_capacity_divides_by_zero:
  assumes "rates ra = []" and "getExchangeRate resp (currency ra) = Inr rate" and "0 < frequency ra"
  shows "(48 * Hour < frequency ra
           \<longrightarrow> (48 * Hour) sdiv frequency ra = 0
             \<and> Update ra resp = (ra, Panicked DecimalDivisionByZero))
       \<and> (frequency ra \<le> 48 * Hour
           \<longrightarrow> (\<exists>ra'. Update ra resp = (ra', Returned (Inr rate)) \<and> rates ra' = [rate]))"
proof (intro conjI impI)
  assume big: "48 * Hour < frequency ra"
  then show z: "(48 * Hour) sdiv frequency ra = 0" by (rule max_rates_zero)
  have "ra\<lparr>rates := []\<rparr> = ra" using assms(1) by simp
  with assms z show "Update ra resp = (ra, Panicked DecimalDivisionByZero)"
    by (simp add: Update_quote_ok evict_def)
next
  assume "frequency ra \<le> 48 * Hour"
  with assms(3) have "1 \<le> (48 * Hour) sdiv frequency ra" by (rule max_rates_positive)
  then have "evict ((48 * Hour) sdiv frequency ra) (rates ra @ [rate]) = [rate]"
    using assms(1) by (simp add: evict_def)
  with assms show "\<exists>ra'. Update ra resp = (ra', Returned (Inr rate)) \<and> rates ra' = [rate]"
    by (simp add: Update_quote_ok)
qed

theorem C9_zero_capacity_divides_by_zero_witness:
  "rates (New [WithFrequency (49 * Hour)]) = []
   \<and> getExchangeRate (usd_quote 5) (currency (New [WithFrequency (49 * Hour)])) = Inr 5
   \<and> 48 * Hour < frequency (New [WithFrequency (49 * Hour)])
   \<and> Update (New [WithFrequency (49 * Hour)]) (usd_quote 5)
       = (New [WithFrequency (49 * Hour)], Panicked DecimalDivisionByZero)
   \<and> frequency (New [WithFrequency (48 * Hour)]) \<le> 48 * Hour
   \<and> (\<exists>ra'. Update (New [WithFrequency (48 * Hour)]) (usd_quote 5) = (ra', Returned (Inr 5))
         \<and> rates ra' = [5])"
proof -
  let ?long = "New [WithFrequency (49 * Hour)]"
  let ?edge = "New [WithFrequency (48 * Hour)]"
  have r: "rates ?long = []" by code_simp
  have q: "getExchangeRate (usd_quote 5) (currency ?long) = Inr 5" by code_simp
  have f: "48 * Hour < frequency ?long" by code_simp
  have p: "0 < frequency ?long" by code_simp
  have r': "rates ?edge = []" by code_simp
  have q': "getExchangeRate (usd_quote 5) (currency ?edge) = Inr 5" by code_simp
  have f': "frequency ?edge \<le> 48 * Hour" by code_simp
  have p': "0 < frequency ?edge" by code_simp
  from C9_zero_capacity_divides_by_zero [OF r q p] f
    C9_zero_capacity_divides_by_zero [OF r' q' p'] f' r q
  show ?thesis by simp
qed

subsection \<open>The threshold test\<close>

text \<open>
  C3. \<open>isOverThreshold\<close> holds exactly when the absolute difference of baseline and
  snapshot is greater than the baseline times the threshold fraction. The inequality is
  strict: a difference equal to the limit does not trigger. With baseline 100 and
  fraction 0.1 the snapshot 109 does not trigger, 111 does, and 110 (difference equal to
  the limit) does not.
\<close>

theorem C3_threshold_is_strict:
  "isOverThreshold baseline snapshot thresholdFraction
     = (\<bar>baseline - snapshot\<bar> > baseline * thresholdFraction)
   \<and> (\<bar>baseline - snapshot\<bar> = baseline * thresholdFraction
        \<longrightarrow> \<not> isOverThreshold baseline snapshot thresholdFraction)
   \<and> \<not> isOverThreshold 100 109 (1 / 10)
   \<and> isOverThreshold 100 111 (1 / 10)
   \<and> \<not> isOverThreshold 100 110 (1 / 10)"
  by (simp add: isOverThreshold_def)

theorem C3_threshold_is_strict_witness:
  "\<bar>100 - 90\<bar> = (100 :: decimal) * (1 / 10) \<and> \<not> isOverThreshold 100 90 (1 / 10)"
  using C3_threshold_is_strict [of 100 90 "1 / 10"] by simp

subsection \<open>The update round\<close>

text \<open>
  C4, as the claim states it, fails: with two hosts of which the first refuses the call,
  \<open>updateHosts\<close> returns at the first host and never calls the second.
\<close>

theorem C4_second_host_not_called:
  "updateHosts a_refuses [host_a, host_b] default_prices 1
     = Inr ([host_a], Some (FailedToUpdateHost ''http://a:9980/api'' ''connection refused''))"
  by code_simp

text \<open>
  C4, amended. In a round whose conversions succeed, the hosts are called one at a time
  in list order with the same three prices. The first call that fails ends the round:
  the hosts before it were updated, the failing host is the last one called, the hosts
  after it are not called, and the error returned names that host. The round returns an
  error exactly when some host of the list refuses the call; when none does, every host
  of the list is called.
\<close>

theorem C4_round_stops_at_first_failure:
  assumes "updateHosts client hosts target rate = Inr (called, res)"
  shows "\<exists>sp ip ep.
      (res = None) = (\<forall>h\<in>set hosts. client h sp ip ep = None)
    \<and> (res = None \<longrightarrow> called = hosts)
    \<and> (res \<noteq> None \<longrightarrow>
         (\<exists>pre h post err. hosts = pre @ h # post
            \<and> (\<forall>g\<in>set pre. client g sp ip ep = None)
            \<and> client h sp ip ep = Some err
            \<and> called = pre @ [h]
            \<and> res = Some (FailedToUpdateHost (Address h) err)))"
proof -
  from assms obtain sp ip ep where loop: "update_loop client sp ip ep hosts = (called, res)"
    by (auto simp: updateHosts_eq split: sum.splits)
  from update_loop_cases [of client sp ip ep hosts] loop
  have "(res = None) = (\<forall>h\<in>set hosts. client h sp ip ep = None)
    \<and> (res = None \<longrightarrow> called = hosts)
    \<and> (res \<noteq> None \<longrightarrow>
         (\<exists>pre h post err. hosts = pre @ h # post
            \<and> (\<forall>g\<in>set pre. client g sp ip ep = None)
            \<and> client h sp ip ep = Some err
            \<and> called = pre @ [h]
            \<and> res = Some (FailedToUpdateHost (Address h) err)))"
    by (elim disjE exE conjE) auto
  then show ?thesis by blast
qed

theorem C4_round_stops_at_first_failure_witness:
  "updateHosts a_refuses [host_b, host_a, host_b] default_prices (1 / 250)
     = Inr ([host_b, host_a],
            Some (FailedToUpdateHost ''http://a:9980/api'' ''connection refused''))
   \<and> (\<exists>sp ip ep pre h post err.
         [host_b, host_a, host_b] = pre @ h # post
       \<and> (\<forall>g\<in>set pre. a_refuses g sp ip ep = None)
       \<and> a_refuses h sp ip ep = Some err
       \<and> [host_b, host_a] = pre @ [h])"
proof -
  have round: "updateHosts a_refuses [host_b, host_a, host_b] default_prices (1 / 250)
      = Inr ([host_b, host_a],
             Some (FailedToUpdateHost ''http://a:9980/api'' ''connection refused''))"
    by code_simp
  from C4_round_stops_at_first_failure [OF round] round show ?thesis by blast
qed

text \<open>
  C5, as the claim states it, fails: with a negative storage target the conversion
  fails, and the tick does not end with an error returned by the round but with the
  panic of \<open>convertToCurrency\<close>, which nothing recovers.
\<close>

theorem C5_conversion_failure_is_a_panic:
  "main_tick mispriced_config accepting 1 (1 / 250) = (1 / 250, Acted (Inl ParseCurrencyFailed))"
  by code_simp

text \<open>
  C5, amended. When the conversion of one of the three targets fails, \<open>updateHosts\<close>
  panics before it calls any host: the round returns no error value, and the tick of
  \<open>main\<close> that started it ends in that panic (\<open>main\<close> has no recover, so the process
  ends), the baseline being already set to the snapshot.
\<close>

theorem C5_conversion_failure_panics:
  assumes "convertToCurrency (Storage target) rate = Inl p
         \<or> convertToCurrency (Ingress target) rate = Inl p
         \<or> convertToCurrency (Egress target) rate = Inl p"
  shows "(\<exists>p'. updateHosts client hosts target rate = Inl p')
       \<and> (isOverThreshold lastRate rate (Threshold cfg) \<and> Prices cfg = target
            \<longrightarrow> (\<exists>p'. main_tick cfg client lastRate rate = (rate, Acted (Inl p'))))"
proof -
  from assms have "\<exists>p'. updateHosts client hs target rate = Inl p'" for hs
    by (auto simp: updateHosts_eq split: sum.splits)
  then show ?thesis by (auto simp: main_tick_def)
qed

theorem C5_conversion_failure_panics_witness:
  "convertToCurrency (Storage (Prices mispriced_config)) (1 / 250) = Inl ParseCurrencyFailed
   \<and> isOverThreshold 1 (1 / 250) (Threshold mispriced_config)
   \<and> (\<exists>p'. updateHosts accepting [host_a] (Prices mispriced_config) (1 / 250) = Inl p')
   \<and> (\<exists>p'. main_tick mispriced_config accepting 1 (1 / 250) = (1 / 250, Acted (Inl p')))"
proof -
  have c: "convertToCurrency (Storage (Prices mispriced_config)) (1 / 250)
      = Inl ParseCurrencyFailed" by code_simp
  have t: "isOverThreshold 1 (1 / 250) (Threshold mispriced_config)" by code_simp
  from c have "convertToCurrency (Storage (Prices mispriced_config)) (1 / 250)
        = Inl ParseCurrencyFailed
      \<or> convertToCurrency (Ingress (Prices mispriced_config)) (1 / 250)
        = Inl ParseCurrencyFailed
      \<or> convertToCurrency (Egress (Prices mispriced_config)) (1 / 250)
        = Inl ParseCurrencyFailed" by simp
  from C5_conversion_failure_panics [OF this, of accepting "[host_a]" 1 mispriced_config] c t
  show ?thesis by simp
qed

text \<open>
  C6. In a tick whose threshold test fires, \<open>lastRate\<close> is the snapshot when the
  iteration ends, whatever the hosts answer (also when every call fails, and when the
  round panics): the assignment precedes the call of \<open>updateHosts\<close>. In a tick whose
  test does not fire, \<open>lastRate\<close> is unchanged and nothing is called.
\<close>

theorem C6_baseline_advances:
  "(isOverThreshold lastRate avg (Threshold cfg)
      \<longrightarrow> fst (main_tick cfg client lastRate avg) = avg
        \<and> (\<exists>r. snd (main_tick cfg client lastRate avg) = Acted r))
   \<and> (\<not> isOverThreshold lastRate avg (Threshold cfg)
      \<longrightarrow> main_tick cfg client lastRate avg = (lastRate, Skipped))"
  by (simp add: main_tick_def)

theorem C6_baseline_advances_witness:
  "isOverThreshold 1 2 (Threshold example_config)
   \<and> main_tick example_config refusing 1 2
       = (2, Acted (Inr ([host_a],
            Some (FailedToUpdateHost ''http://a:9980/api'' ''connection refused''))))
   \<and> fst (main_tick example_config refusing 1 2) = 2
   \<and> \<not> isOverThreshold 100 109 (Threshold example_config)
   \<and> main_tick example_config refusing 100 109 = (100, Skipped)"
proof -
  have fires: "isOverThreshold 1 2 (Threshold example_config)" by code_simp
  have round: "main_tick example_config refusing 1 2
      = (2, Acted (Inr ([host_a],
           Some (FailedToUpdateHost ''http://a:9980/api'' ''connection refused''))))"
    by code_simp
  have quiet: "\<not> isOverThreshold 100 109 (Threshold example_config)" by code_simp
  from C6_baseline_advances [of 1 2 example_config refusing]
    C6_baseline_advances [of 100 109 example_config refusing] fires round quiet
  show ?thesis by simp
qed

subsection \<open>The converted prices\<close>

text \<open>
  C8, as the claim states it, fails, in two ways. The quotient of target by rate is the
  one of the decimal type, rounded to 16 decimal places before it is scaled: target 1 at
  rate 3 converts to 333333333333333300000000, not to 333333333333333333333333, and an
  ingress target of 0.99999999999999999 at rate 1 is sent to the host as the price
  \<open>10 ^ 12\<close>, where the exact quotient gives 999999999999. And for the positive rate
  \<open>1 / 10 ^ 16\<close> and the default targets, which are not negative, the amount does not
  fit the 128-bit currency and the conversion panics: there are no prices.
\<close>

theorem C8_amount_differs_and_overflows:
  "convertToCurrency 1 3 = Inr 333333333333333300000000
   \<and> spec_hastings 1 3 = 333333333333333333333333
   \<and> spec_hastings (Ingress near_one_prices) 1 div 10 ^ 12 = 999999999999
   \<and> updateHosts (wants_ingress 999999999999) [host_a] near_one_prices 1
       = Inr ([host_a],
              Some (FailedToUpdateHost ''http://a:9980/api'' ''unexpected ingress price''))
   \<and> updateHosts (wants_ingress 1000000000000) [host_a] near_one_prices 1
       = Inr ([host_a], None)
   \<and> updateHosts accepting [host_a] default_prices (1 / 10 ^ 16) = Inl ParseCurrencyFailed"
proof -
  have "convertToCurrency 1 3 = Inr 333333333333333300000000" by code_simp
  moreover have "spec_hastings 1 3 = 333333333333333333333333" by code_simp
  moreover have "spec_hastings (Ingress near_one_prices) 1 div 10 ^ 12 = 999999999999"
    by code_simp
  moreover have "updateHosts (wants_ingress 999999999999) [host_a] near_one_prices 1
       = Inr ([host_a],
              Some (FailedToUpdateHost ''http://a:9980/api'' ''unexpected ingress price''))"
    by code_simp
  moreover have "updateHosts (wants_ingress 1000000000000) [host_a] near_one_prices 1
       = Inr ([host_a], None)"
    by code_simp
  moreover have "updateHosts accepting [host_a] default_prices (1 / 10 ^ 16)
       = Inl ParseCurrencyFailed"
    by code_simp
  ultimately show ?thesis by blast
qed

text \<open>
  C8, amended. For a positive rate and targets that are not negative, the amount of a
  target is the target divided by the rate to 16 decimal places (the division of the
  decimal type, rounding half away from zero), scaled by \<open>10 ^ 24\<close>: an integer
  already, a multiple of \<open>10 ^ 8\<close>, which the rounding to an integer leaves as it is. It
  is the amount of the exact quotient whenever that quotient has at most 16 decimal
  places. \<open>convertToCurrency\<close> returns the amount when it is below \<open>2 ^ 128\<close> and
  panics otherwise. When the three amounts are below \<open>2 ^ 128\<close>, the prices sent to the
  hosts are: for storage the amount divided by 4320 and then by \<open>10 ^ 12\<close>, for ingress
  and for egress the amount divided by \<open>10 ^ 12\<close>, each division rounding down. When
  one of the amounts reaches \<open>2 ^ 128\<close>, the round panics and no price is sent.
\<close>

theorem C8_converted_prices:
  assumes "0 < rate"
    and "0 \<le> Storage target" and "0 \<le> Ingress target" and "0 \<le> Egress target"
  shows "hastings t rate = round_half_away (t / rate * 10 ^ 16) * 10 ^ 8
    \<and> (t / rate = of_int k / 10 ^ 16 \<longrightarrow> hastings t rate = spec_hastings t rate)
    \<and> (0 \<le> t \<longrightarrow> convertToCurrency t rate =
          (if hastings t rate < 2 ^ 128 then Inr (word_of_int (hastings t rate))
           else Inl ParseCurrencyFailed))
    \<and> (hastings (Storage target) rate < 2 ^ 128
        \<and> hastings (Ingress target) rate < 2 ^ 128
        \<and> hastings (Egress target) rate < 2 ^ 128
        \<longrightarrow> (\<exists>sp ip ep.
              updateHosts client hosts target rate = Inr (update_loop client sp ip ep hosts)
            \<and> uint sp = hastings (Storage target) rate div 4320 div 10 ^ 12
            \<and> uint ip = hastings (Ingress target) rate div 10 ^ 12
            \<and> uint ep = hastings (Egress target) rate div 10 ^ 12))
    \<and> (2 ^ 128 \<le> hastings (Storage target) rate
        \<or> 2 ^ 128 \<le> hastings (Ingress target) rate
        \<or> 2 ^ 128 \<le> hastings (Egress target) rate
        \<longrightarrow> updateHosts client hosts target rate = Inl ParseCurrencyFailed)"
proof (intro conjI impI)
  show "hastings t rate = round_half_away (t / rate * 10 ^ 16) * 10 ^ 8"
    by (rule hastings_multiple)
next
  assume "t / rate = of_int k / 10 ^ 16"
  then show "hastings t rate = spec_hastings t rate" by (rule hastings_exact)
next
  assume "0 \<le> t"
  with assms(1) show "convertToCurrency t rate =
      (if hastings t rate < 2 ^ 128 then Inr (word_of_int (hastings t rate))
       else Inl ParseCurrencyFailed)"
    by (rule convertToCurrency_positive_rate)
next
  assume range: "hastings (Storage target) rate < 2 ^ 128
        \<and> hastings (Ingress target) rate < 2 ^ 128
        \<and> hastings (Egress target) rate < 2 ^ 128"
  from range have sb: "hastings (Storage target) rate < 2 ^ 128"
    and ib: "hastings (Ingress target) rate < 2 ^ 128"
    and eb: "hastings (Egress target) rate < 2 ^ 128" by simp_all
  note s = convertToCurrency_in_range [OF assms(1) assms(2) sb]
  note i = convertToCurrency_in_range [OF assms(1) assms(3) ib]
  note e = convertToCurrency_in_range [OF assms(1) assms(4) eb]
  let ?sp = "Div64 (Div64 (word_of_int (hastings (Storage target) rate)) 4320) 1000000000000"
  let ?ip = "Div64 (word_of_int (hastings (Ingress target) rate)) 1000000000000"
  let ?ep = "Div64 (word_of_int (hastings (Egress target) rate)) 1000000000000"
  have "updateHosts client hosts target rate = Inr (update_loop client ?sp ?ip ?ep hosts)"
    using s i e by (simp add: updateHosts_eq)
  moreover have "uint ?sp = hastings (Storage target) rate div 4320 div 10 ^ 12"
    using s by (simp add: uint_Div64)
  moreover have "uint ?ip = hastings (Ingress target) rate div 10 ^ 12"
    using i by (simp add: uint_Div64)
  moreover have "uint ?ep = hastings (Egress target) rate div 10 ^ 12"
    using e by (simp add: uint_Div64)
  ultimately show "\<exists>sp ip ep.
        updateHosts client hosts target rate = Inr (update_loop client sp ip ep hosts)
      \<and> uint sp = hastings (Storage target) rate div 4320 div 10 ^ 12
      \<and> uint ip = hastings (Ingress target) rate div 10 ^ 12
      \<and> uint ep = hastings (Egress target) rate div 10 ^ 12" by blast
next
  assume over: "2 ^ 128 \<le> hastings (Storage target) rate
        \<or> 2 ^ 128 \<le> hastings (Ingress target) rate
        \<or> 2 ^ 128 \<le> hastings (Egress target) rate"
  note s = convertToCurrency_positive_rate [OF assms(1) assms(2)]
  note i = convertToCurrency_positive_rate [OF assms(1) assms(3)]
  note e = convertToCurrency_positive_rate [OF assms(1) assms(4)]
  from over show "updateHosts client hosts target rate = Inl ParseCurrencyFailed"
    unfolding updateHosts_eq s i e by auto
qed

theorem C8_converted_prices_witness:
  "0 < (1 / 250 :: decimal)
   \<and> hastings (Storage default_prices) (1 / 250) = 250000000000000000000000000
   \<and> hastings (Storage default_prices) (1 / 250)
       = spec_hastings (Storage default_prices) (1 / 250)
   \<and> convertToCurrency (Storage default_prices) (1 / 250) = Inr 250000000000000000000000000
   \<and> (\<exists>sp ip ep.
         updateHosts accepting [host_a] default_prices (1 / 250)
           = Inr (update_loop accepting sp ip ep [host_a])
       \<and> uint sp = 57870370370 \<and> uint ip = 25000000000000 \<and> uint ep = 2500000000000000)
   \<and> 0 < (1 / 10 ^ 16 :: decimal)
   \<and> 2 ^ 128 \<le> hastings (Storage default_prices) (1 / 10 ^ 16)
   \<and> updateHosts accepting [host_a] default_prices (1 / 10 ^ 16) = Inl ParseCurrencyFailed"
proof -
  have r: "0 < (1 / 250 :: decimal)" by simp
  have r': "0 < (1 / 10 ^ 16 :: decimal)" by simp
  have s0: "0 \<le> Storage default_prices" by code_simp
  have i0: "0 \<le> Ingress default_prices" by code_simp
  have e0: "0 \<le> Egress default_prices" by code_simp
  have q: "Storage default_prices / (1 / 250) = of_int 2500000000000000000 / 10 ^ 16"
    by code_simp
  have s: "hastings (Storage default_prices) (1 / 250) = 250000000000000000000000000"
    by code_simp
  have i: "hastings (Ingress default_prices) (1 / 250) = 25000000000000000000000000"
    by code_simp
  have e: "hastings (Egress default_prices) (1 / 250) = 2500000000000000000000000000"
    by code_simp
  have over: "2 ^ 128 \<le> hastings (Storage default_prices) (1 / 10 ^ 16)" by code_simp
  from C8_converted_prices [OF r s0 i0 e0,
      of "Storage default_prices" 2500000000000000000 accepting "[host_a]"] r s i e q s0
  have in_range: "hastings (Storage default_prices) (1 / 250)
        = spec_hastings (Storage default_prices) (1 / 250)
      \<and> convertToCurrency (Storage default_prices) (1 / 250) = Inr 250000000000000000000000000
      \<and> (\<exists>sp ip ep.
         updateHosts accepting [host_a] default_prices (1 / 250)
           = Inr (update_loop accepting sp ip ep [host_a])
       \<and> uint sp = 57870370370 \<and> uint ip = 25000000000000 \<and> uint ep = 2500000000000000)"
    by simp
  from C8_converted_prices [OF r' s0 i0 e0, of _ _ accepting "[host_a]"] over
  have "updateHosts accepting [host_a] default_prices (1 / 10 ^ 16) = Inl ParseCurrencyFailed"
    by blast
  with in_range r r' s over show ?thesis by simp
qed

subsection \<open>A fresh averager\<close>

text \<open>
  C10. On an averager that \<open>New\<close> has just built, whatever the options, \<open>Rate\<close> returns
  the decimal zero (the zero value of the \<open>average\<close> field): it neither fails nor
  computes anything, and the buffer is empty.
\<close>

theorem C10_fresh_rate_is_zero: "Rate (New opts) = 0 \<and> rates (New opts) = []"
  using New_rates_average [of opts] by (simp add: Rate_def)

end
